theory Spec2Isabelle
  imports Main "HOL-Library.AList"
begin

section \<open>Data model (entity/models.py)\<close>

text \<open>
  The two ORM classes become records.  Field names carry the prefix \<open>c_\<close> (class
  \<open>Consumer\<close>, the account) or \<open>u_\<close> (class \<open>User\<close>, the contact), since both classes
  have \<open>id\<close>, \<open>created_at\<close> and \<open>updated_at\<close>.  Timestamps are clock readings in whole
  seconds, dates are day numbers.  \<open>confirmed\<close> is a nullable Boolean column, so it is a
  \<open>bool option\<close>; Python's truth test on it is \<open>truthy\<close>.
\<close>

datatype Role = ADMIN | MODERATOR | USER

datatype jval = JStr string | JNum int | JNull

type_synonym claims = "(string \<times> jval) list"

datatype token = Signed string string claims | Malformed string

record Consumer =
  c_id :: int
  c_username :: string
  c_email :: string
  c_password :: string
  c_avatar :: "string option"
  c_refresh_token :: "token option"
  c_created_at :: int
  c_updated_at :: int
  c_role :: Role
  c_confirmed :: "bool option"

record User =
  u_id :: int
  u_first_name :: string
  u_second_name :: string
  u_phone_num :: string
  u_email_add :: string
  u_birth_date :: int
  u_created_at :: int
  u_updated_at :: int
  u_consumer_id :: "int option"

text \<open>The database: the rows of the two tables.\<close>

record db =
  consumers :: "Consumer list"
  users :: "User list"

text \<open>
  Everything a handler can raise.  \<open>HTTPException\<close> carries the status code, the detail
  string and the extra headers; the other constructors are the Python and library
  exceptions that no handler catches (FastAPI answers them with status 500).
\<close>

datatype error =
    HTTPException int string "(string \<times> string) list"
  | JWTError
  | KeyError string
  | AttributeError
  | TypeError
  | MultipleResultsFound
  | IntegrityError
  | RequestValidationError
  | UnknownHashError

fun truthy :: "bool option \<Rightarrow> bool" where
  "truthy None = False"
| "truthy (Some b) = b"

section \<open>Library layer: dictionaries, queries, signed tokens\<close>

text \<open>
  A Python dictionary with string keys is an association list; \<open>d.update(...)\<close>
  overwrites a key in place or appends it, and \<open>d[k]\<close> raises \<open>KeyError\<close> on a missing key.
\<close>

definition dict_get :: "claims \<Rightarrow> string \<Rightarrow> jval option" where
  "dict_get d k = map_of d k"

definition dict_update :: "claims \<Rightarrow> claims \<Rightarrow> claims" where
  "dict_update d kvs = fold (\<lambda>(k, v) acc. AList.update k v acc) kvs d"

definition dict_index :: "claims \<Rightarrow> string \<Rightarrow> error + jval" where
  "dict_index d k = (case map_of d k of None \<Rightarrow> Inl (KeyError k) | Some v \<Rightarrow> Inr v)"

text \<open>
  SQLAlchemy's \<open>Select.filter_by(**kwargs)\<close> takes keyword criteria only: a call that passes
  positional arguments raises \<open>TypeError\<close> before any query is built.  \<open>Select.filter\<close>
  takes one positional criterion.  \<open>scalar_one_or_none\<close> gives the single row, \<open>None\<close> for
  no row, and raises for more than one.
\<close>

definition filter_by :: "('r \<Rightarrow> bool) list \<Rightarrow> ('r \<Rightarrow> bool) list \<Rightarrow> 'r list \<Rightarrow> error + 'r list" where
  "filter_by positional keywords rows =
     (case positional of
        [] \<Rightarrow> Inr (filter (\<lambda>r. list_all (\<lambda>p. p r) keywords) rows)
      | _ # _ \<Rightarrow> Inl TypeError)"

fun scalar_one_or_none :: "'r list \<Rightarrow> error + 'r option" where
  "scalar_one_or_none [] = Inr None"
| "scalar_one_or_none [r] = Inr (Some r)"
| "scalar_one_or_none (r # r' # rs) = Inl MultipleResultsFound"

text \<open>
  The JWT library (\<open>jose.jwt\<close>) is modelled symbolically: a token is the algorithm, the
  signing key and the claims it was made from, or a string that is no token at all.
  \<open>jwt_decode\<close> raises \<open>JWTError\<close> for a malformed token, an algorithm outside the allowed
  list, another key, an \<open>exp\<close> claim earlier than the clock reading, or a \<open>sub\<close> claim that is
  not a string; otherwise it returns the claims.  Time claims are whole seconds.
\<close>

definition jwt_encode :: "claims \<Rightarrow> string \<Rightarrow> string \<Rightarrow> token" where
  "jwt_encode cl key alg = Signed alg key cl"

definition jwt_validate_sub :: "claims \<Rightarrow> error + claims" where
  "jwt_validate_sub cl =
     (case map_of cl ''sub'' of
        None \<Rightarrow> Inr cl
      | Some (JStr s) \<Rightarrow> Inr cl
      | Some _ \<Rightarrow> Inl JWTError)"

fun jwt_decode :: "token \<Rightarrow> string \<Rightarrow> string list \<Rightarrow> int \<Rightarrow> error + claims" where
  "jwt_decode (Malformed s) key algs now = Inl JWTError"
| "jwt_decode (Signed alg k cl) key algs now =
     (if alg \<notin> set algs then Inl JWTError
      else if k \<noteq> key then Inl JWTError
      else (case map_of cl ''exp'' of
              None \<Rightarrow> jwt_validate_sub cl
            | Some (JNum e) \<Rightarrow> (if e < now then Inl JWTError else jwt_validate_sub cl)
            | Some _ \<Rightarrow> Inl JWTError))"

section \<open>repository/consumers.py\<close>

text \<open>
  \<open>get_user_by_email\<close> receives whatever Python value the caller holds; a value that is
  not a string equals no stored email.  It runs its query inside
  \<open>async with db as session\<close>, which closes the session when the block is left: the row it
  returns is detached from the session.
\<close>

definition get_user_by_email :: "jval \<Rightarrow> db \<Rightarrow> error + Consumer option" where
  "get_user_by_email email d =
     (case filter_by [] [\<lambda>c. JStr (c_email c) = email] (consumers d) of
        Inl e \<Rightarrow> Inl e
      | Inr rows \<Rightarrow> scalar_one_or_none rows)"

text \<open>
  \<open>commit\<close> writes the changed rows that are attached to the session, each under its
  primary key and with \<open>updated_at\<close> refreshed (\<open>onupdate=func.now()\<close>).  An assignment to
  an attribute of a detached row changes the Python object only.  \<open>update_token\<close> and
  \<open>confirmed_email\<close> assign to the row that \<open>get_user_by_email\<close> returned and commit a
  session to which no row is attached.
\<close>

definition session_commit :: "Consumer list \<Rightarrow> int \<Rightarrow> db \<Rightarrow> db" where
  "session_commit attached now d =
     d\<lparr>consumers :=
         map (\<lambda>c. case find (\<lambda>r. c_id r = c_id c) attached of
                     None \<Rightarrow> c
                   | Some r \<Rightarrow> r\<lparr>c_updated_at := now\<rparr>)
             (consumers d)\<rparr>"

definition update_token :: "Consumer \<Rightarrow> token option \<Rightarrow> int \<Rightarrow> db \<Rightarrow> Consumer \<times> db" where
  "update_token user tok now d = (user\<lparr>c_refresh_token := tok\<rparr>, session_commit [] now d)"

definition repository_consumer_confirmed_email :: "jval \<Rightarrow> int \<Rightarrow> db \<Rightarrow> db \<times> (error + unit)" where
  "repository_consumer_confirmed_email email now d =
     (case get_user_by_email email d of
        Inl e \<Rightarrow> (d, Inl e)
      | Inr None \<Rightarrow> (d, Inl AttributeError)
      | Inr (Some user) \<Rightarrow>
          (let user' = user\<lparr>c_confirmed := Some True\<rparr>
           in (session_commit [] now d, Inr ())))"

section \<open>services/auth.py\<close>

text \<open>
  The class \<open>Auth\<close>: the password context (passlib, bcrypt) is a pair of functions, the
  secret and the algorithm come from the configuration.  \<open>pwd_context.verify\<close> returns a
  verdict or raises (for a stored value it cannot identify as a hash, for one); neither
  \<open>verify_password\<close> nor its caller catches the exception.
\<close>

record Auth =
  pwd_context_verify :: "string \<Rightarrow> string \<Rightarrow> error + bool"
  pwd_context_hash :: "string \<Rightarrow> string"
  SECRET_KEY :: string
  ALGORITHM :: string

definition verify_password :: "Auth \<Rightarrow> string \<Rightarrow> string \<Rightarrow> error + bool" where
  "verify_password auth plain_password hashed_password =
     pwd_context_verify auth plain_password hashed_password"

definition get_password_hash :: "Auth \<Rightarrow> string \<Rightarrow> string" where
  "get_password_hash auth password = pwd_context_hash auth password"

text \<open>
  \<open>expires_delta\<close> is a number of seconds or \<open>None\<close>; Python's \<open>if expires_delta:\<close> is
  false for \<open>None\<close> and for zero.  All clock reads of one call give the reading \<open>now\<close>.
\<close>

definition create_access_token :: "Auth \<Rightarrow> int \<Rightarrow> claims \<Rightarrow> int option \<Rightarrow> token" where
  "create_access_token auth now data expires_delta =
     (let expire = (case expires_delta of
                      None \<Rightarrow> now + 15 * 60
                    | Some s \<Rightarrow> (if s \<noteq> 0 then now + s else now + 15 * 60));
          to_encode = dict_update data
            [(''iat'', JNum now), (''exp'', JNum expire), (''scope'', JStr ''access_token'')]
      in jwt_encode to_encode (SECRET_KEY auth) (ALGORITHM auth))"

definition create_refresh_token :: "Auth \<Rightarrow> int \<Rightarrow> claims \<Rightarrow> int option \<Rightarrow> token" where
  "create_refresh_token auth now data expires_delta =
     (let expire = (case expires_delta of
                      None \<Rightarrow> now + 7 * 86400
                    | Some s \<Rightarrow> (if s \<noteq> 0 then now + s else now + 7 * 86400));
          to_encode = dict_update data
            [(''iat'', JNum now), (''exp'', JNum expire), (''scope'', JStr ''refresh_token'')]
      in jwt_encode to_encode (SECRET_KEY auth) (ALGORITHM auth))"

definition decode_refresh_token :: "Auth \<Rightarrow> int \<Rightarrow> token \<Rightarrow> error + jval" where
  "decode_refresh_token auth now refresh_tok =
     (case jwt_decode refresh_tok (SECRET_KEY auth) [ALGORITHM auth] now of
        Inl e \<Rightarrow>
          (if e = JWTError
           then Inl (HTTPException 401 ''Could not validate credentials'' [])
           else Inl e)
      | Inr payload \<Rightarrow>
          (case dict_index payload ''scope'' of
             Inl e \<Rightarrow> Inl e
           | Inr scope \<Rightarrow>
               (if scope = JStr ''refresh_token'' then dict_index payload ''sub''
                else Inl (HTTPException 401 ''Invalid scope for token'' []))))"

definition credentials_exception :: error where
  "credentials_exception =
     HTTPException 401 ''Could not validate credentials'' [(''WWW-Authenticate'', ''Bearer'')]"

definition get_current_user :: "Auth \<Rightarrow> int \<Rightarrow> token \<Rightarrow> db \<Rightarrow> error + Consumer" where
  "get_current_user auth now tok d =
     (case jwt_decode tok (SECRET_KEY auth) [ALGORITHM auth] now of
        Inl e \<Rightarrow> (if e = JWTError then Inl credentials_exception else Inl e)
      | Inr payload \<Rightarrow>
          (case dict_index payload ''scope'' of
             Inl e \<Rightarrow> Inl e
           | Inr scope \<Rightarrow>
               (if scope = JStr ''access_token'' then
                  (case dict_index payload ''sub'' of
                     Inl e \<Rightarrow> Inl e
                   | Inr email \<Rightarrow>
                       (if email = JNull then Inl credentials_exception
                        else (case get_user_by_email email d of
                                Inl e \<Rightarrow> Inl e
                              | Inr None \<Rightarrow> Inl credentials_exception
                              | Inr (Some user) \<Rightarrow> Inr user)))
                else Inl credentials_exception)))"

definition create_email_token :: "Auth \<Rightarrow> int \<Rightarrow> claims \<Rightarrow> token" where
  "create_email_token auth now data =
     (let expire = now + 86400;
          to_encode = dict_update data [(''iat'', JNum now), (''exp'', JNum expire)]
      in jwt_encode to_encode (SECRET_KEY auth) (ALGORITHM auth))"

definition get_email_from_token :: "Auth \<Rightarrow> int \<Rightarrow> token \<Rightarrow> error + jval" where
  "get_email_from_token auth now tok =
     (case jwt_decode tok (SECRET_KEY auth) [ALGORITHM auth] now of
        Inl e \<Rightarrow>
          (if e = JWTError
           then Inl (HTTPException 422 ''Invalid token for email verification'' [])
           else Inl e)
      | Inr payload \<Rightarrow> dict_index payload ''sub'')"

definition get_password_from_token :: "Auth \<Rightarrow> int \<Rightarrow> token \<Rightarrow> error + jval" where
  "get_password_from_token auth now tok =
     (case jwt_decode tok (SECRET_KEY auth) [ALGORITHM auth] now of
        Inl e \<Rightarrow>
          (if e = JWTError
           then Inl (HTTPException 422 ''Invalid token for password verification'' [])
           else Inl e)
      | Inr payload \<Rightarrow> dict_index payload ''password'')"

section \<open>routes/auth.py\<close>

text \<open>
  A handler returns the database it leaves behind together with its response or the
  exception it raised.  Background tasks that a handler queues are part of its response.
\<close>

record TokenSchema =
  ts_access_token :: token
  ts_refresh_token :: token
  ts_token_type :: string

datatype background_task = send_email string string string

definition login :: "Auth \<Rightarrow> int \<Rightarrow> string \<Rightarrow> string \<Rightarrow> db \<Rightarrow> db \<times> (error + TokenSchema)" where
  "login auth now body_username body_password d =
     (case get_user_by_email (JStr body_username) d of
        Inl e \<Rightarrow> (d, Inl e)
      | Inr None \<Rightarrow> (d, Inl (HTTPException 401 ''Invalid email'' []))
      | Inr (Some user) \<Rightarrow>
          (if \<not> truthy (c_confirmed user)
           then (d, Inl (HTTPException 401 ''Email not confirmed'' []))
           else
             (case verify_password auth body_password (c_password user) of
                Inl e \<Rightarrow> (d, Inl e)
              | Inr verified \<Rightarrow>
                  (if \<not> verified
                   then (d, Inl (HTTPException 401 ''Invalid password'' []))
                   else
                     (let access = create_access_token auth now
                            [(''sub'', JStr (c_email user)),
                             (''test'', JStr ''Tester Testorovich'')] None;
                          refresh = create_refresh_token auth now
                            [(''sub'', JStr (c_email user))] None
                      in (snd (update_token user (Some refresh) now d),
                          Inr \<lparr>ts_access_token = access, ts_refresh_token = refresh,
                               ts_token_type = ''bearer''\<rparr>))))))"

definition refresh_token :: "Auth \<Rightarrow> int \<Rightarrow> token \<Rightarrow> db \<Rightarrow> db \<times> (error + TokenSchema)" where
  "refresh_token auth now tok d =
     (case decode_refresh_token auth now tok of
        Inl e \<Rightarrow> (d, Inl e)
      | Inr email \<Rightarrow>
          (case get_user_by_email email d of
             Inl e \<Rightarrow> (d, Inl e)
           | Inr None \<Rightarrow> (d, Inl AttributeError)
           | Inr (Some user) \<Rightarrow>
               (if c_refresh_token user \<noteq> Some tok
                then (snd (update_token user None now d),
                      Inl (HTTPException 401 ''Invalid refresh token'' []))
                else
                  (let access = create_access_token auth now [(''sub'', email)] None;
                       refresh = create_refresh_token auth now [(''sub'', email)] None
                   in (snd (update_token user (Some refresh) now d),
                       Inr \<lparr>ts_access_token = access, ts_refresh_token = refresh,
                            ts_token_type = ''bearer''\<rparr>)))))"

definition confirmed_email :: "Auth \<Rightarrow> int \<Rightarrow> token \<Rightarrow> db \<Rightarrow> db \<times> (error + string)" where
  "confirmed_email auth now tok d =
     (case get_email_from_token auth now tok of
        Inl e \<Rightarrow> (d, Inl e)
      | Inr email \<Rightarrow>
          (case get_user_by_email email d of
             Inl e \<Rightarrow> (d, Inl e)
           | Inr None \<Rightarrow> (d, Inl (HTTPException 400 ''Verification error'' []))
           | Inr (Some user) \<Rightarrow>
               (if truthy (c_confirmed user)
                then (d, Inr ''Your email is already confirmed'')
                else (case repository_consumer_confirmed_email email now d of
                        (d', Inl e) \<Rightarrow> (d', Inl e)
                      | (d', Inr _) \<Rightarrow> (d', Inr ''Email confirmed'')))))"

text \<open>
  \<open>request_email\<close> reads \<open>user.confirmed\<close> before it tests \<open>if user:\<close>; on \<open>None\<close> the
  attribute access raises.
\<close>

definition request_email :: "string \<Rightarrow> string \<Rightarrow> db \<Rightarrow> error + string \<times> background_task list" where
  "request_email body_email base_url d =
     (case get_user_by_email (JStr body_email) d of
        Inl e \<Rightarrow> Inl e
      | Inr user \<Rightarrow>
          (case user of
             None \<Rightarrow> Inl AttributeError
           | Some u \<Rightarrow>
               (if truthy (c_confirmed u)
                then Inr (''Your email is already confirmed'', [])
                else Inr (''Check your email for confirmation.'',
                          (if user \<noteq> None
                           then [send_email (c_email u) (c_username u) base_url]
                           else [])))))"

section \<open>repository/users.py\<close>

record UserSchema =
  b_first_name :: string
  b_second_name :: string
  b_email_add :: string
  b_phone_num :: string
  b_birth_date :: int

text \<open>
  \<open>filter_by(id=user_id, consumer=consumer)\<close> compares the primary key and the foreign key
  \<open>consumer_id\<close> with the requesting account's id.
\<close>

definition repository_users_get_user :: "int \<Rightarrow> db \<Rightarrow> Consumer \<Rightarrow> error + User option" where
  "repository_users_get_user user_id d consumer =
     (case filter_by [] [\<lambda>u. u_id u = user_id, \<lambda>u. u_consumer_id u = Some (c_id consumer)]
             (users d) of
        Inl e \<Rightarrow> Inl e
      | Inr rows \<Rightarrow> scalar_one_or_none rows)"

text \<open>
  \<open>get_users_birth\<close> hands its two date comparisons to \<open>filter_by\<close> as positional
  arguments.  \<open>current_date\<close> is the day number the clock gives.
\<close>

definition repository_users_get_users_birth :: "int \<Rightarrow> int \<Rightarrow> db \<Rightarrow> Consumer \<Rightarrow> error + User list" where
  "repository_users_get_users_birth limit current_date d consumer =
     (let end_date = current_date + limit
      in filter_by [\<lambda>u. u_birth_date u \<ge> current_date, \<lambda>u. u_birth_date u \<le> end_date]
                   [\<lambda>u. u_consumer_id u = Some (c_id consumer)] (users d))"

text \<open>
  The functions of this module run their queries on the open session, so the rows they
  load stay attached and a commit writes them.  \<open>update_user\<close> assigns the five mutable
  fields and commits; the \<open>date\<close> assigned to the \<open>DateTime\<close> column \<open>birth_date\<close> always counts
  as a change, so the row is written and \<open>updated_at\<close> refreshed every time.  \<open>phone_num\<close>
  and \<open>email_add\<close> are unique columns, so the commit fails when another row holds the new
  value.
\<close>

definition repository_users_update_user ::
    "int \<Rightarrow> UserSchema \<Rightarrow> int \<Rightarrow> db \<Rightarrow> Consumer \<Rightarrow> db \<times> (error + User option)" where
  "repository_users_update_user user_id body now d consumer =
     (case filter_by [] [\<lambda>u. u_id u = user_id, \<lambda>u. u_consumer_id u = Some (c_id consumer)]
             (users d) of
        Inl e \<Rightarrow> (d, Inl e)
      | Inr rows \<Rightarrow>
          (case scalar_one_or_none rows of
             Inl e \<Rightarrow> (d, Inl e)
           | Inr None \<Rightarrow> (d, Inr None)
           | Inr (Some user) \<Rightarrow>
               (let user' = user\<lparr>u_first_name := b_first_name body,
                                 u_second_name := b_second_name body,
                                 u_email_add := b_email_add body,
                                 u_phone_num := b_phone_num body,
                                 u_birth_date := b_birth_date body\<rparr>
                in if list_ex (\<lambda>r. u_id r \<noteq> u_id user \<and>
                                 (u_phone_num r = u_phone_num user' \<or>
                                  u_email_add r = u_email_add user')) (users d)
                   then (d, Inl IntegrityError)
                   else (d\<lparr>users := map (\<lambda>u. if u_id u = u_id user
                                               then user'\<lparr>u_updated_at := now\<rparr> else u)
                                         (users d)\<rparr>,
                         Inr (Some (user'\<lparr>u_updated_at := now\<rparr>))))))"

definition repository_users_delete_user :: "int \<Rightarrow> db \<Rightarrow> Consumer \<Rightarrow> db \<times> (error + User option)" where
  "repository_users_delete_user user_id d consumer =
     (case filter_by [] [\<lambda>u. u_id u = user_id, \<lambda>u. u_consumer_id u = Some (c_id consumer)]
             (users d) of
        Inl e \<Rightarrow> (d, Inl e)
      | Inr rows \<Rightarrow>
          (case scalar_one_or_none rows of
             Inl e \<Rightarrow> (d, Inl e)
           | Inr None \<Rightarrow> (d, Inr None)
           | Inr (Some user) \<Rightarrow>
               (d\<lparr>users := filter (\<lambda>u. u_id u \<noteq> u_id user) (users d)\<rparr>, Inr (Some user))))"

section \<open>routes/users.py\<close>

text \<open>
  The handlers after their dependencies are resolved: \<open>c_user\<close> is the account that
  \<open>get_current_user\<close> returned.  \<open>Path(ge=1)\<close> and \<open>Query(7, ge=7, le=100)\<close> reject a
  parameter outside their range before the body runs.
\<close>

definition get_user :: "int \<Rightarrow> db \<Rightarrow> Consumer \<Rightarrow> error + User" where
  "get_user user_id d c_user =
     (if user_id < 1 then Inl RequestValidationError
      else (case repository_users_get_user user_id d c_user of
              Inl e \<Rightarrow> Inl e
            | Inr None \<Rightarrow> Inl (HTTPException 404 ''NOT FOUND'' [])
            | Inr (Some user) \<Rightarrow> Inr user))"

definition get_users_birth :: "int \<Rightarrow> int \<Rightarrow> db \<Rightarrow> Consumer \<Rightarrow> error + User list" where
  "get_users_birth limit current_date d c_user =
     (if limit < 7 \<or> limit > 100 then Inl RequestValidationError
      else repository_users_get_users_birth limit current_date d c_user)"

definition update_user :: "UserSchema \<Rightarrow> int \<Rightarrow> int \<Rightarrow> db \<Rightarrow> Consumer \<Rightarrow> db \<times> (error + User)" where
  "update_user body user_id now d c_user =
     (if user_id < 1 then (d, Inl RequestValidationError)
      else (case repository_users_update_user user_id body now d c_user of
              (d', Inl e) \<Rightarrow> (d', Inl e)
            | (d', Inr None) \<Rightarrow> (d', Inl (HTTPException 404 ''NOT FOUND'' []))
            | (d', Inr (Some user)) \<Rightarrow> (d', Inr user)))"

text \<open>\<open>delete_user\<close> returns what the repository returned, \<open>None\<close> included.\<close>

definition delete_user :: "int \<Rightarrow> db \<Rightarrow> Consumer \<Rightarrow> db \<times> (error + User option)" where
  "delete_user user_id d c_user =
     (if user_id < 1 then (d, Inl RequestValidationError)
      else repository_users_delete_user user_id d c_user)"

section \<open>Drivers and fixtures\<close>

text \<open>
  \<open>get_unverified_claims\<close> reads the claims of a token without any check, as
  \<open>jose.jwt.get_unverified_claims\<close> does.  \<open>confirmed_email_repeat\<close> calls the handler
  \<open>confirmed_email\<close> once per clock reading of the list, each call on the database the
  previous one left, and collects the responses.
\<close>

fun get_unverified_claims :: "token \<Rightarrow> error + claims" where
  "get_unverified_claims (Malformed s) = Inl JWTError"
| "get_unverified_claims (Signed alg k cl) = Inr cl"

fun confirmed_email_repeat :: "Auth \<Rightarrow> int list \<Rightarrow> token \<Rightarrow> db \<Rightarrow> db \<times> (error + string) list" where
  "confirmed_email_repeat auth [] tok d = (d, [])"
| "confirmed_email_repeat auth (now # nows) tok d =
     (case confirmed_email auth now tok d of
        (d', r) \<Rightarrow> (case confirmed_email_repeat auth nows tok d' of
                      (d'', rs) \<Rightarrow> (d'', r # rs)))"

text \<open>
  The accounts of the test suite (tests/pytests): John, confirmed, and agent007, who has
  signed up but not confirmed; one contact that John owns.  The password context of the
  fixture marks a digest by a prefix and, as passlib does for a stored value it cannot
  identify as a hash, raises \<open>UnknownHashError\<close> for a value without the prefix.
\<close>

definition test_auth :: Auth where
  "test_auth = \<lparr>pwd_context_verify =
                  (\<lambda>plain hashed. if take 4 hashed = ''$2b$''
                                   then Inr (hashed = ''$2b$'' @ plain)
                                   else Inl UnknownHashError),
                pwd_context_hash = (\<lambda>plain. ''$2b$'' @ plain),
                SECRET_KEY = ''secret_key'', ALGORITHM = ''HS256''\<rparr>"

definition john :: Consumer where
  "john = \<lparr>c_id = 1, c_username = ''John'', c_email = ''John123@foks.com'',
           c_password = ''$2b$qwe123123'', c_avatar = None, c_refresh_token = None,
           c_created_at = 0, c_updated_at = 0, c_role = USER, c_confirmed = Some True\<rparr>"

definition agent007 :: Consumer where
  "agent007 = \<lparr>c_id = 2, c_username = ''agent007'', c_email = ''Vladislavovich@agent007.com'',
               c_password = ''$2b$vlados'', c_avatar = None, c_refresh_token = None,
               c_created_at = 0, c_updated_at = 0, c_role = USER, c_confirmed = Some False\<rparr>"

definition john_doe :: User where
  "john_doe = \<lparr>u_id = 1, u_first_name = ''John'', u_second_name = ''Doe'',
               u_phone_num = ''1234567890'', u_email_add = ''john.doe@example.com'',
               u_birth_date = 20000, u_created_at = 0, u_updated_at = 0,
               u_consumer_id = Some 1\<rparr>"

definition jane_doe :: UserSchema where
  "jane_doe = \<lparr>b_first_name = ''Jane'', b_second_name = ''Doe'',
               b_email_add = ''jane.doe@example.com'', b_phone_num = ''9876543210'',
               b_birth_date = 19000\<rparr>"

definition test_db :: db where
  "test_db = \<lparr>consumers = [john, agent007], users = [john_doe]\<rparr>"

text \<open>
  The account of the repository unit tests (tests/unittests), whose password column holds
  the plain string \<open>qwerty\<close>, and a database with it.  John's refresh token as \<open>login\<close>
  issues it at clock reading 100; a database in which John's row holds the string
  \<open>old_token\<close> as its refresh token, and one in which it holds \<open>john_refresh\<close>.
\<close>

definition test_user :: Consumer where
  "test_user = \<lparr>c_id = 3, c_username = ''test_user'', c_email = ''test_user@example.com'',
                c_password = ''qwerty'', c_avatar = None, c_refresh_token = None,
                c_created_at = 0, c_updated_at = 0, c_role = USER, c_confirmed = Some True\<rparr>"

definition unit_test_db :: db where
  "unit_test_db = \<lparr>consumers = [john, agent007, test_user], users = [john_doe]\<rparr>"

definition john_refresh :: token where
  "john_refresh = create_refresh_token test_auth 100 [(''sub'', JStr ''John123@foks.com'')] None"

definition old_token_db :: db where
  "old_token_db = \<lparr>consumers = [john\<lparr>c_refresh_token := Some (Malformed ''old_token'')\<rparr>,
                                  agent007], users = [john_doe]\<rparr>"

definition stored_token_db :: db where
  "stored_token_db = \<lparr>consumers = [john\<lparr>c_refresh_token := Some john_refresh\<rparr>, agent007],
                      users = [john_doe]\<rparr>"

lemmas fixtures = test_auth_def john_def agent007_def john_doe_def jane_doe_def test_db_def

section \<open>Library layer: basic facts\<close>

lemma map_of_dict_update3:
  "map_of (dict_update d [(k1, v1), (k2, v2), (k3, v3)]) =
     (map_of d)(k1 \<mapsto> v1, k2 \<mapsto> v2, k3 \<mapsto> v3)"
  by (simp add: dict_update_def update_conv')

lemma map_of_dict_update2:
  "map_of (dict_update d [(k1, v1), (k2, v2)]) = (map_of d)(k1 \<mapsto> v1, k2 \<mapsto> v2)"
  by (simp add: dict_update_def update_conv')

lemma jwt_decode_error: "jwt_decode tok key algs now = Inl e \<Longrightarrow> e = JWTError"
  by (cases tok) (auto simp: jwt_validate_sub_def split: option.splits jval.splits if_splits)

lemma jwt_decode_payload:
  "jwt_decode tok key algs now = Inr cl \<Longrightarrow> \<exists>alg. alg \<in> set algs \<and> tok = Signed alg key cl"
  by (cases tok) (auto simp: jwt_validate_sub_def split: option.splits jval.splits if_splits)

lemma jwt_decode_expired:
  "map_of cl ''exp'' = Some (JNum e) \<Longrightarrow> e < now \<Longrightarrow> jwt_decode (Signed alg key cl) key algs now = Inl JWTError"
  by simp

lemma jwt_decode_other_key:
  "k \<noteq> key \<Longrightarrow> jwt_decode (Signed alg k cl) key algs now = Inl JWTError"
  by simp

lemma scalar_one_or_none_Some: "scalar_one_or_none rows = Inr (Some r) \<Longrightarrow> rows = [r]"
  by (cases rows rule: scalar_one_or_none.cases) auto

lemma scalar_one_or_none_None: "scalar_one_or_none rows = Inr None \<Longrightarrow> rows = []"
  by (cases rows rule: scalar_one_or_none.cases) auto

lemma filter_unique_key:
  "distinct (map f xs) \<Longrightarrow> x \<in> set xs \<Longrightarrow> filter (\<lambda>y. f y = f x) xs = [x]"
proof (induction xs)
  case Nil
  then show ?case by simp
next
  case (Cons y ys)
  show ?case
  proof (cases "y = x")
    case True
    with Cons.prems have "\<forall>z\<in>set ys. f z \<noteq> f x" by (auto simp: image_iff)
    then have "filter (\<lambda>z. f z = f x) ys = []" by (simp add: filter_empty_conv)
    with True show ?thesis by simp
  next
    case False
    with Cons.prems have xin: "x \<in> set ys" and "f y \<noteq> f x" by (auto simp: image_iff)
    with Cons show ?thesis by simp
  qed
qed

section \<open>Account lookup\<close>

lemma get_user_by_email_none:
  "(\<forall>u\<in>set (consumers d). JStr (c_email u) \<noteq> email) \<Longrightarrow> get_user_by_email email d = Inr None"
  by (simp add: get_user_by_email_def filter_by_def filter_empty_conv)

lemma get_user_by_email_some:
  assumes "distinct (map c_email (consumers d))" and "u \<in> set (consumers d)"
  shows "get_user_by_email (JStr (c_email u)) d = Inr (Some u)"
  using filter_unique_key [OF assms]
  by (simp add: get_user_by_email_def filter_by_def)

lemma get_user_by_email_SomeD:
  assumes "get_user_by_email email d = Inr (Some u)"
  shows "u \<in> set (consumers d) \<and> JStr (c_email u) = email
         \<and> filter (\<lambda>c. JStr (c_email c) = email) (consumers d) = [u]"
proof -
  from assms have f: "filter (\<lambda>c. JStr (c_email c) = email) (consumers d) = [u]"
    by (auto simp: get_user_by_email_def filter_by_def dest: scalar_one_or_none_Some)
  from filter_eq_ConsD [OF f] have "u \<in> set (consumers d) \<and> JStr (c_email u) = email"
    by auto
  with f show ?thesis by simp
qed

lemma truthy_iff: "truthy c \<longleftrightarrow> c = Some True"
  by (cases c) auto

section \<open>What the account repository writes\<close>

text \<open>
  A commit with no row attached leaves the database as it is, so none of the handlers of
  routes/auth.py that are embedded here changes the database.
\<close>

lemma session_commit_nothing_attached: "session_commit [] now d = d"
  by (simp add: session_commit_def)

lemma update_token_keeps_db: "snd (update_token user tok now d) = d"
  by (simp add: update_token_def session_commit_nothing_attached)

lemma repository_consumer_confirmed_email_keeps_db:
  "fst (repository_consumer_confirmed_email email now d) = d"
  by (simp add: repository_consumer_confirmed_email_def session_commit_nothing_attached Let_def
        split: sum.splits option.splits)

lemma login_keeps_db: "fst (login auth now email password d) = d"
  by (simp add: login_def update_token_keeps_db Let_def split: sum.splits option.splits)

lemma refresh_token_keeps_db: "fst (refresh_token auth now tok d) = d"
  by (simp add: refresh_token_def update_token_keeps_db Let_def split: sum.splits option.splits)

lemma confirmed_email_keeps_db: "fst (confirmed_email auth now tok d) = d"
proof -
  have "fst (case repository_consumer_confirmed_email email now d of
               (d', Inl e) \<Rightarrow> (d', Inl e)
             | (d', Inr u) \<Rightarrow> (d', Inr ''Email confirmed'')) = d" for email
    using repository_consumer_confirmed_email_keeps_db [of email now d]
    by (cases "repository_consumer_confirmed_email email now d") (auto split: sum.splits)
  then show ?thesis
    by (simp add: confirmed_email_def split: sum.splits option.splits)
qed


section \<open>Login\<close>

text \<open>
  With emails unique in the accounts table, \<open>login\<close> tests in this order: no account with
  the email (401 \<open>Invalid email\<close>), confirmed flag not true (401 \<open>Email not confirmed\<close>,
  whatever the password), and then the verdict of the password context: \<open>False\<close> gives 401
  \<open>Invalid password\<close>, \<open>True\<close> gives the token pair, and an exception of the password
  context leaves the handler as it is.
\<close>

lemma login_classifies:
  assumes uniq: "distinct (map c_email (consumers d))"
  shows "(\<forall>u\<in>set (consumers d). c_email u \<noteq> email) \<Longrightarrow>
           login auth now email password d = (d, Inl (HTTPException 401 ''Invalid email'' []))"
    and "u \<in> set (consumers d) \<Longrightarrow> c_email u = email \<Longrightarrow> c_confirmed u \<noteq> Some True \<Longrightarrow>
           login auth now email password d =
             (d, Inl (HTTPException 401 ''Email not confirmed'' []))"
    and "u \<in> set (consumers d) \<Longrightarrow> c_email u = email \<Longrightarrow> c_confirmed u = Some True \<Longrightarrow>
         verify_password auth password (c_password u) = Inr False \<Longrightarrow>
           login auth now email password d =
             (d, Inl (HTTPException 401 ''Invalid password'' []))"
    and "u \<in> set (consumers d) \<Longrightarrow> c_email u = email \<Longrightarrow> c_confirmed u = Some True \<Longrightarrow>
         verify_password auth password (c_password u) = Inr True \<Longrightarrow>
           \<exists>resp. login auth now email password d = (d, Inr resp)"
    and "u \<in> set (consumers d) \<Longrightarrow> c_email u = email \<Longrightarrow> c_confirmed u = Some True \<Longrightarrow>
         verify_password auth password (c_password u) = Inl e \<Longrightarrow>
           login auth now email password d = (d, Inl e)"
proof -
  show "login auth now email password d = (d, Inl (HTTPException 401 ''Invalid email'' []))"
    if "\<forall>u\<in>set (consumers d). c_email u \<noteq> email"
    using that by (simp add: login_def get_user_by_email_none)
  have found: "get_user_by_email (JStr email) d = Inr (Some u)"
    if "u \<in> set (consumers d)" "c_email u = email" for u
    using get_user_by_email_some [OF uniq that(1)] that(2) by simp
  show "login auth now email password d =
          (d, Inl (HTTPException 401 ''Email not confirmed'' []))"
    if "u \<in> set (consumers d)" "c_email u = email" "c_confirmed u \<noteq> Some True"
    using found [OF that(1,2)] that(3) by (simp add: login_def truthy_iff)
  show "login auth now email password d =
          (d, Inl (HTTPException 401 ''Invalid password'' []))"
    if "u \<in> set (consumers d)" "c_email u = email" "c_confirmed u = Some True"
       "verify_password auth password (c_password u) = Inr False"
    using found [OF that(1,2)] that(3,4) by (simp add: login_def truthy_iff)
  show "\<exists>resp. login auth now email password d = (d, Inr resp)"
    if "u \<in> set (consumers d)" "c_email u = email" "c_confirmed u = Some True"
       "verify_password auth password (c_password u) = Inr True"
    using found [OF that(1,2)] that(3,4)
    by (simp add: login_def truthy_iff Let_def update_token_keeps_db)
  show "login auth now email password d = (d, Inl e)"
    if "u \<in> set (consumers d)" "c_email u = email" "c_confirmed u = Some True"
       "verify_password auth password (c_password u) = Inl e"
    using found [OF that(1,2)] that(3,4) by (simp add: login_def truthy_iff)
qed


text \<open>
  C1.  Login for \<open>test_user\<close>, a confirmed account whose stored password is not a hash
  that the password context can identify: the handler ends with the \<open>UnknownHashError\<close> of
  the password context, which is neither a success nor one of the three 401 answers.  The
  other four requests get the token pair or the 401 of their cause.
\<close>

theorem login_unknown_hash_raises:
  "get_user_by_email (JStr ''test_user@example.com'') unit_test_db = Inr (Some test_user)
   \<and> c_confirmed test_user = Some True
   \<and> verify_password test_auth ''qwerty'' (c_password test_user) = Inl UnknownHashError
   \<and> login test_auth 100 ''test_user@example.com'' ''qwerty'' unit_test_db =
       (unit_test_db, Inl UnknownHashError)
   \<and> login test_auth 100 ''John123@foks.com'' ''password'' unit_test_db =
       (unit_test_db, Inl (HTTPException 401 ''Invalid password'' []))
   \<and> login test_auth 100 ''Vladislavovich@agent007.com'' ''vlados'' unit_test_db =
       (unit_test_db, Inl (HTTPException 401 ''Email not confirmed'' []))
   \<and> login test_auth 100 ''email'' ''qwe123123'' unit_test_db =
       (unit_test_db, Inl (HTTPException 401 ''Invalid email'' []))
   \<and> login test_auth 100 ''John123@foks.com'' ''qwe123123'' unit_test_db =
       (unit_test_db,
        Inr \<lparr>ts_access_token = create_access_token test_auth 100
                 [(''sub'', JStr ''John123@foks.com''), (''test'', JStr ''Tester Testorovich'')]
                 None,
             ts_refresh_token = create_refresh_token test_auth 100
                 [(''sub'', JStr ''John123@foks.com'')] None,
             ts_token_type = ''bearer''\<rparr>)"
  by (simp add: login_def get_user_by_email_def filter_by_def verify_password_def
        update_token_keeps_db Let_def test_user_def unit_test_db_def fixtures)

section \<open>Token scopes\<close>

text \<open>Each verifier accepts the tokens of its own issuer while they are fresh.\<close>

lemma refresh_token_accepted:
  "now' \<le> now + 7 * 86400 \<Longrightarrow> map_of data ''sub'' = Some (JStr e) \<Longrightarrow>
   decode_refresh_token auth now' (create_refresh_token auth now data None) = Inr (JStr e)"
  by (simp add: decode_refresh_token_def create_refresh_token_def jwt_encode_def jwt_validate_sub_def Let_def
        map_of_dict_update3 dict_index_def)

lemma access_token_accepted:
  "now' \<le> now + 15 * 60 \<Longrightarrow> map_of data ''sub'' = Some (JStr e) \<Longrightarrow>
   get_user_by_email (JStr e) d = Inr (Some u) \<Longrightarrow>
   get_current_user auth now' (create_access_token auth now data None) d = Inr u"
  by (simp add: get_current_user_def create_access_token_def jwt_encode_def jwt_validate_sub_def Let_def
        map_of_dict_update3 dict_index_def)


text \<open>
  C2.  For every payload, lifetime and pair of clock readings, the refresh-token verifier
  rejects a token made by \<open>create_access_token\<close> with a 401 (\<open>Invalid scope for token\<close>, or
  \<open>Could not validate credentials\<close> once the token has expired), and \<open>get_current_user\<close>
  rejects a token made by \<open>create_refresh_token\<close> with its 401 credentials error.
\<close>

theorem cross_scope_tokens_rejected:
  "(decode_refresh_token auth now' (create_access_token auth now data expires_delta) =
      Inl (HTTPException 401 ''Could not validate credentials'' []) \<or>
    decode_refresh_token auth now' (create_access_token auth now data expires_delta) =
      Inl (HTTPException 401 ''Invalid scope for token'' []))
   \<and> get_current_user auth now' (create_refresh_token auth now data expires_delta) d =
      Inl credentials_exception"
proof
  show "decode_refresh_token auth now' (create_access_token auth now data expires_delta) =
      Inl (HTTPException 401 ''Could not validate credentials'' []) \<or>
    decode_refresh_token auth now' (create_access_token auth now data expires_delta) =
      Inl (HTTPException 401 ''Invalid scope for token'' [])"
    by (simp add: decode_refresh_token_def create_access_token_def jwt_encode_def jwt_validate_sub_def Let_def
        map_of_dict_update3 dict_index_def split: option.splits jval.splits)
  show "get_current_user auth now' (create_refresh_token auth now data expires_delta) d =
      Inl credentials_exception"
    by (simp add: get_current_user_def create_refresh_token_def jwt_encode_def jwt_validate_sub_def Let_def
        map_of_dict_update3 dict_index_def split: option.splits jval.splits)
qed

theorem cross_scope_tokens_rejected_witness:
  "decode_refresh_token test_auth 160
      (create_access_token test_auth 100 [(''sub'', JStr ''John123@foks.com'')] None) =
      Inl (HTTPException 401 ''Invalid scope for token'' [])
   \<and> decode_refresh_token test_auth 1001
      (create_access_token test_auth 100 [(''sub'', JStr ''John123@foks.com'')] None) =
      Inl (HTTPException 401 ''Could not validate credentials'' [])
   \<and> get_current_user test_auth 160
      (create_refresh_token test_auth 100 [(''sub'', JStr ''John123@foks.com'')] None) test_db =
      Inl credentials_exception"
proof -
  have 1: "decode_refresh_token test_auth 160
      (create_access_token test_auth 100 [(''sub'', JStr ''John123@foks.com'')] None) =
      Inl (HTTPException 401 ''Invalid scope for token'' [])"
    by (simp add: decode_refresh_token_def create_access_token_def jwt_encode_def jwt_validate_sub_def Let_def
        map_of_dict_update3 dict_index_def test_auth_def)
  have 2: "decode_refresh_token test_auth 1001
      (create_access_token test_auth 100 [(''sub'', JStr ''John123@foks.com'')] None) =
      Inl (HTTPException 401 ''Could not validate credentials'' [])"
    by (simp add: decode_refresh_token_def create_access_token_def jwt_encode_def jwt_validate_sub_def Let_def
        map_of_dict_update3 dict_index_def test_auth_def)
  from 1 2 cross_scope_tokens_rejected
    [of test_auth 160 100 "[(''sub'', JStr ''John123@foks.com'')]" None test_db]
  show ?thesis by blast
qed


section \<open>Resolving the current account\<close>

text \<open>
  C10.  A validly signed, unexpired token of scope \<open>access_token\<close> whose subject matches no
  stored account makes \<open>get_current_user\<close> raise \<open>credentials_exception\<close>, the very 401
  \<open>Could not validate credentials\<close> it raises when decoding fails (bad signature, expiry)
  or when the scope is another one; and an account it returns is a row of the accounts
  table.
\<close>

theorem get_current_user_unknown_account:
  "(jwt_decode tok (SECRET_KEY auth) [ALGORITHM auth] now = Inr payload \<and>
      dict_get payload ''scope'' = Some (JStr ''access_token'') \<and>
      dict_get payload ''sub'' = Some email \<and>
      get_user_by_email email d = Inr None
      \<longrightarrow> get_current_user auth now tok d = Inl credentials_exception)
   \<and> (jwt_decode tok (SECRET_KEY auth) [ALGORITHM auth] now = Inl e
      \<longrightarrow> get_current_user auth now tok d = Inl credentials_exception)
   \<and> (jwt_decode tok (SECRET_KEY auth) [ALGORITHM auth] now = Inr payload \<and>
      dict_get payload ''scope'' = Some scope \<and> scope \<noteq> JStr ''access_token''
      \<longrightarrow> get_current_user auth now tok d = Inl credentials_exception)
   \<and> (get_current_user auth now tok d = Inr user \<longrightarrow> user \<in> set (consumers d))
   \<and> credentials_exception =
       HTTPException 401 ''Could not validate credentials'' [(''WWW-Authenticate'', ''Bearer'')]"
proof (intro conjI impI)
  assume "jwt_decode tok (SECRET_KEY auth) [ALGORITHM auth] now = Inr payload \<and>
      dict_get payload ''scope'' = Some (JStr ''access_token'') \<and>
      dict_get payload ''sub'' = Some email \<and>
      get_user_by_email email d = Inr None"
  then show "get_current_user auth now tok d = Inl credentials_exception"
    by (simp add: get_current_user_def dict_index_def dict_get_def)
next
  assume a: "jwt_decode tok (SECRET_KEY auth) [ALGORITHM auth] now = Inl e"
  from jwt_decode_error [OF a] a
  show "get_current_user auth now tok d = Inl credentials_exception"
    by (simp add: get_current_user_def)
next
  assume "jwt_decode tok (SECRET_KEY auth) [ALGORITHM auth] now = Inr payload \<and>
      dict_get payload ''scope'' = Some scope \<and> scope \<noteq> JStr ''access_token''"
  then show "get_current_user auth now tok d = Inl credentials_exception"
    by (simp add: get_current_user_def dict_index_def dict_get_def)
next
  assume "get_current_user auth now tok d = Inr user"
  then have "\<exists>email. get_user_by_email email d = Inr (Some user)"
    by (auto simp: get_current_user_def split: sum.splits if_splits option.splits)
  then show "user \<in> set (consumers d)"
    using get_user_by_email_SomeD by blast
next
  show "credentials_exception =
       HTTPException 401 ''Could not validate credentials'' [(''WWW-Authenticate'', ''Bearer'')]"
    by (simp add: credentials_exception_def)
qed

theorem get_current_user_unknown_account_witness:
  "get_current_user test_auth 160
      (create_access_token test_auth 100 [(''sub'', JStr ''nobody@example.com'')] None) test_db =
      Inl (HTTPException 401 ''Could not validate credentials'' [(''WWW-Authenticate'', ''Bearer'')])
   \<and> get_current_user test_auth 160 (Malformed ''garbage'') test_db =
      Inl (HTTPException 401 ''Could not validate credentials'' [(''WWW-Authenticate'', ''Bearer'')])
   \<and> get_current_user test_auth 160
      (create_refresh_token test_auth 100 [(''sub'', JStr ''John123@foks.com'')] None) test_db =
      Inl (HTTPException 401 ''Could not validate credentials'' [(''WWW-Authenticate'', ''Bearer'')])
   \<and> get_current_user test_auth 160
      (create_access_token test_auth 100 [(''sub'', JStr ''John123@foks.com'')] None) test_db =
      Inr john
   \<and> john \<in> set (consumers test_db)"
proof -
  let ?nobody = "[(''sub'', JStr ''nobody@example.com''), (''iat'', JNum 100),
                  (''exp'', JNum 1000), (''scope'', JStr ''access_token'')]"
  let ?refresh = "[(''sub'', JStr ''John123@foks.com''), (''iat'', JNum 100),
                  (''exp'', JNum 604900), (''scope'', JStr ''refresh_token'')]"
  have 1: "get_current_user test_auth 160
      (create_access_token test_auth 100 [(''sub'', JStr ''nobody@example.com'')] None) test_db =
      Inl (HTTPException 401 ''Could not validate credentials'' [(''WWW-Authenticate'', ''Bearer'')])"
    using get_current_user_unknown_account
      [of "create_access_token test_auth 100 [(''sub'', JStr ''nobody@example.com'')] None"
          test_auth 160 ?nobody "JStr ''nobody@example.com''" test_db]
    by (simp add: create_access_token_def jwt_encode_def jwt_validate_sub_def dict_update_def dict_get_def
          get_user_by_email_def filter_by_def fixtures)
  have 2: "get_current_user test_auth 160 (Malformed ''garbage'') test_db =
      Inl (HTTPException 401 ''Could not validate credentials'' [(''WWW-Authenticate'', ''Bearer'')])"
    using get_current_user_unknown_account
      [of "Malformed ''garbage''" test_auth 160 _ _ test_db JWTError]
    by simp
  have 3: "get_current_user test_auth 160
      (create_refresh_token test_auth 100 [(''sub'', JStr ''John123@foks.com'')] None) test_db =
      Inl (HTTPException 401 ''Could not validate credentials'' [(''WWW-Authenticate'', ''Bearer'')])"
    using get_current_user_unknown_account
      [of "create_refresh_token test_auth 100 [(''sub'', JStr ''John123@foks.com'')] None"
          test_auth 160 ?refresh _ test_db _ "JStr ''refresh_token''"]
    by (simp add: create_refresh_token_def jwt_encode_def jwt_validate_sub_def dict_update_def dict_get_def fixtures)
  have 4: "get_current_user test_auth 160
      (create_access_token test_auth 100 [(''sub'', JStr ''John123@foks.com'')] None) test_db =
      Inr john"
    by (simp add: get_current_user_def create_access_token_def jwt_encode_def jwt_validate_sub_def dict_update_def
          dict_index_def get_user_by_email_def filter_by_def fixtures)
  have 5: "john \<in> set (consumers test_db)"
    using 4 get_current_user_unknown_account
      [of "create_access_token test_auth 100 [(''sub'', JStr ''John123@foks.com'')] None"
          test_auth 160 _ _ test_db _ _ john]
    by simp
  from 1 2 3 4 5 show ?thesis by blast
qed

section \<open>What the tokens carry and what the verifiers check\<close>

text \<open>
  C5, as stated, fails: the token that \<open>create_email_token\<close> makes for the confirmation
  mail has no \<open>scope\<close> claim, and \<open>get_email_from_token\<close> accepts a refresh token, since it
  never looks at the scope.
\<close>

theorem email_token_has_no_scope:
  "get_unverified_claims
      (create_email_token test_auth 100 [(''sub'', JStr ''John123@foks.com'')]) =
      Inr [(''sub'', JStr ''John123@foks.com''), (''iat'', JNum 100), (''exp'', JNum 86500)]
   \<and> dict_get [(''sub'', JStr ''John123@foks.com''), (''iat'', JNum 100), (''exp'', JNum 86500)]
        ''scope'' = None
   \<and> get_email_from_token test_auth 160
        (create_refresh_token test_auth 100 [(''sub'', JStr ''John123@foks.com'')] None) =
      Inr (JStr ''John123@foks.com'')"
  by (simp add: create_email_token_def create_refresh_token_def jwt_encode_def jwt_validate_sub_def dict_update_def
        dict_get_def get_email_from_token_def dict_index_def test_auth_def)


text \<open>
  C5, amended.  An access token and a refresh token carry \<open>scope\<close> (\<open>access_token\<close>,
  \<open>refresh_token\<close>), \<open>iat\<close>, \<open>exp\<close> and the subject of the payload.  A token made by
  \<open>create_email_token\<close> (email confirmation and password reset) carries \<open>iat\<close>, \<open>exp\<close> and the
  payload, subject and password included, and no \<open>scope\<close> of its own.
  \<open>decode_refresh_token\<close> accepts only scope \<open>refresh_token\<close> and \<open>get_current_user\<close> only
  scope \<open>access_token\<close>; \<open>get_email_from_token\<close> and \<open>get_password_from_token\<close> check
  signature and expiry and read \<open>sub\<close> and \<open>password\<close>, whatever the scope.
\<close>

theorem token_claims_and_scope_checks:
  "(\<exists>cl. get_unverified_claims (create_access_token auth now data expires_delta) = Inr cl \<and>
         dict_get cl ''scope'' = Some (JStr ''access_token'') \<and>
         dict_get cl ''iat'' = Some (JNum now) \<and>
         (\<exists>e. dict_get cl ''exp'' = Some (JNum e)) \<and>
         dict_get cl ''sub'' = dict_get data ''sub'')
   \<and> (\<exists>cl. get_unverified_claims (create_refresh_token auth now data expires_delta) = Inr cl \<and>
         dict_get cl ''scope'' = Some (JStr ''refresh_token'') \<and>
         dict_get cl ''iat'' = Some (JNum now) \<and>
         (\<exists>e. dict_get cl ''exp'' = Some (JNum e)) \<and>
         dict_get cl ''sub'' = dict_get data ''sub'')
   \<and> (\<exists>cl. get_unverified_claims (create_email_token auth now data) = Inr cl \<and>
         dict_get cl ''scope'' = dict_get data ''scope'' \<and>
         dict_get cl ''iat'' = Some (JNum now) \<and>
         dict_get cl ''exp'' = Some (JNum (now + 86400)) \<and>
         dict_get cl ''sub'' = dict_get data ''sub'' \<and>
         dict_get cl ''password'' = dict_get data ''password'')
   \<and> (decode_refresh_token auth now tok = Inr v \<longrightarrow>
        (\<exists>cl. get_unverified_claims tok = Inr cl \<and>
              dict_get cl ''scope'' = Some (JStr ''refresh_token'')))
   \<and> (get_current_user auth now tok d = Inr user \<longrightarrow>
        (\<exists>cl. get_unverified_claims tok = Inr cl \<and>
              dict_get cl ''scope'' = Some (JStr ''access_token'')))
   \<and> (jwt_decode tok (SECRET_KEY auth) [ALGORITHM auth] now = Inr payload \<longrightarrow>
        get_email_from_token auth now tok = dict_index payload ''sub'' \<and>
        get_password_from_token auth now tok = dict_index payload ''password'')"
proof (intro conjI impI)
  show "\<exists>cl. get_unverified_claims (create_access_token auth now data expires_delta) = Inr cl \<and>
         dict_get cl ''scope'' = Some (JStr ''access_token'') \<and>
         dict_get cl ''iat'' = Some (JNum now) \<and>
         (\<exists>e. dict_get cl ''exp'' = Some (JNum e)) \<and>
         dict_get cl ''sub'' = dict_get data ''sub''"
    by (simp add: create_access_token_def jwt_encode_def jwt_validate_sub_def Let_def dict_get_def
          map_of_dict_update3)
  show "\<exists>cl. get_unverified_claims (create_refresh_token auth now data expires_delta) = Inr cl \<and>
         dict_get cl ''scope'' = Some (JStr ''refresh_token'') \<and>
         dict_get cl ''iat'' = Some (JNum now) \<and>
         (\<exists>e. dict_get cl ''exp'' = Some (JNum e)) \<and>
         dict_get cl ''sub'' = dict_get data ''sub''"
    by (simp add: create_refresh_token_def jwt_encode_def jwt_validate_sub_def Let_def dict_get_def
          map_of_dict_update3)
  show "\<exists>cl. get_unverified_claims (create_email_token auth now data) = Inr cl \<and>
         dict_get cl ''scope'' = dict_get data ''scope'' \<and>
         dict_get cl ''iat'' = Some (JNum now) \<and>
         dict_get cl ''exp'' = Some (JNum (now + 86400)) \<and>
         dict_get cl ''sub'' = dict_get data ''sub'' \<and>
         dict_get cl ''password'' = dict_get data ''password''"
    by (simp add: create_email_token_def jwt_encode_def jwt_validate_sub_def Let_def dict_get_def
          map_of_dict_update2)
next
  assume a: "decode_refresh_token auth now tok = Inr v"
  then obtain cl where cl: "jwt_decode tok (SECRET_KEY auth) [ALGORITHM auth] now = Inr cl"
    by (auto simp: decode_refresh_token_def split: sum.splits if_splits)
  with a have "dict_get cl ''scope'' = Some (JStr ''refresh_token'')"
    by (auto simp: decode_refresh_token_def dict_index_def dict_get_def
          split: sum.splits if_splits option.splits)
  moreover from jwt_decode_payload [OF cl] have "get_unverified_claims tok = Inr cl" by auto
  ultimately show "\<exists>cl. get_unverified_claims tok = Inr cl \<and>
              dict_get cl ''scope'' = Some (JStr ''refresh_token'')" by blast
next
  assume a: "get_current_user auth now tok d = Inr user"
  then obtain cl where cl: "jwt_decode tok (SECRET_KEY auth) [ALGORITHM auth] now = Inr cl"
    by (auto simp: get_current_user_def split: sum.splits if_splits)
  with a have "dict_get cl ''scope'' = Some (JStr ''access_token'')"
    by (auto simp: get_current_user_def dict_index_def dict_get_def
          split: sum.splits if_splits option.splits)
  moreover from jwt_decode_payload [OF cl] have "get_unverified_claims tok = Inr cl" by auto
  ultimately show "\<exists>cl. get_unverified_claims tok = Inr cl \<and>
              dict_get cl ''scope'' = Some (JStr ''access_token'')" by blast
next
  assume a: "jwt_decode tok (SECRET_KEY auth) [ALGORITHM auth] now = Inr payload"
  then show "get_email_from_token auth now tok = dict_index payload ''sub''"
    by (simp add: get_email_from_token_def)
  from a show "get_password_from_token auth now tok = dict_index payload ''password''"
    by (simp add: get_password_from_token_def)
qed

theorem token_claims_and_scope_checks_witness:
  "decode_refresh_token test_auth 160
      (create_refresh_token test_auth 100 [(''sub'', JStr ''John123@foks.com'')] None) =
      Inr (JStr ''John123@foks.com'')
   \<and> (\<exists>cl. get_unverified_claims
        (create_refresh_token test_auth 100 [(''sub'', JStr ''John123@foks.com'')] None) = Inr cl \<and>
        dict_get cl ''scope'' = Some (JStr ''refresh_token''))
   \<and> get_current_user test_auth 160
      (create_access_token test_auth 100 [(''sub'', JStr ''John123@foks.com'')] None) test_db =
      Inr john
   \<and> (\<exists>cl. get_unverified_claims
        (create_access_token test_auth 100 [(''sub'', JStr ''John123@foks.com'')] None) = Inr cl \<and>
        dict_get cl ''scope'' = Some (JStr ''access_token''))
   \<and> get_password_from_token test_auth 160
      (create_email_token test_auth 100
         [(''sub'', JStr ''John123@foks.com''), (''password'', JStr ''qwe123123'')]) =
      Inr (JStr ''qwe123123'')"
proof -
  let ?rt = "create_refresh_token test_auth 100 [(''sub'', JStr ''John123@foks.com'')] None"
  let ?at = "create_access_token test_auth 100 [(''sub'', JStr ''John123@foks.com'')] None"
  let ?et = "create_email_token test_auth 100
         [(''sub'', JStr ''John123@foks.com''), (''password'', JStr ''qwe123123'')]"
  let ?ecl = "[(''sub'', JStr ''John123@foks.com''), (''password'', JStr ''qwe123123''),
               (''iat'', JNum 100), (''exp'', JNum 86500)]"
  have 1: "decode_refresh_token test_auth 160 ?rt = Inr (JStr ''John123@foks.com'')"
    by (simp add: decode_refresh_token_def create_refresh_token_def jwt_encode_def jwt_validate_sub_def
          dict_update_def dict_index_def test_auth_def)
  have 2: "\<exists>cl. get_unverified_claims ?rt = Inr cl \<and>
        dict_get cl ''scope'' = Some (JStr ''refresh_token'')"
    using 1 token_claims_and_scope_checks
      [where auth = test_auth and now = 160 and tok = ?rt]
    by blast
  have 3: "get_current_user test_auth 160 ?at test_db = Inr john"
    by (simp add: get_current_user_def create_access_token_def jwt_encode_def jwt_validate_sub_def dict_update_def
          dict_index_def get_user_by_email_def filter_by_def fixtures)
  have 4: "\<exists>cl. get_unverified_claims ?at = Inr cl \<and>
        dict_get cl ''scope'' = Some (JStr ''access_token'')"
    using 3 token_claims_and_scope_checks
      [where auth = test_auth and now = 160 and tok = ?at and d = test_db and user = john]
    by blast
  have 5: "jwt_decode ?et (SECRET_KEY test_auth) [ALGORITHM test_auth] 160 = Inr ?ecl"
    by (simp add: create_email_token_def jwt_encode_def jwt_validate_sub_def dict_update_def test_auth_def)
  have 6: "get_password_from_token test_auth 160 ?et = Inr (JStr ''qwe123123'')"
    using 5 token_claims_and_scope_checks
      [where auth = test_auth and now = 160 and tok = ?et and payload = ?ecl]
    by (simp add: dict_index_def)
  from 1 2 3 4 6 show ?thesis by blast
qed

section \<open>Failures of token verification\<close>

text \<open>
  C6, as stated, fails: the two extraction functions answer a token that does not decode
  with status 422, not 401, and \<open>get_current_user\<close> answers a wrong scope with its
  credentials error, not with an invalid-scope error.
\<close>

theorem email_token_errors_are_422:
  "get_email_from_token test_auth 160 (Malformed ''garbage'') =
      Inl (HTTPException 422 ''Invalid token for email verification'' [])
   \<and> get_password_from_token test_auth 160 (Malformed ''garbage'') =
      Inl (HTTPException 422 ''Invalid token for password verification'' [])
   \<and> get_email_from_token test_auth 86501
        (create_email_token test_auth 100 [(''sub'', JStr ''John123@foks.com'')]) =
      Inl (HTTPException 422 ''Invalid token for email verification'' [])
   \<and> get_current_user test_auth 160
        (create_refresh_token test_auth 100 [(''sub'', JStr ''John123@foks.com'')] None) test_db =
      Inl (HTTPException 401 ''Could not validate credentials'' [(''WWW-Authenticate'', ''Bearer'')])"
  by (simp add: create_email_token_def create_refresh_token_def jwt_encode_def jwt_validate_sub_def dict_update_def
        get_email_from_token_def get_password_from_token_def get_current_user_def
        dict_index_def credentials_exception_def test_auth_def)


text \<open>
  C6, amended.  A token that does not decode (malformed, another key or algorithm,
  expired) gives 401 \<open>Could not validate credentials\<close> in \<open>decode_refresh_token\<close> and
  \<open>get_current_user\<close>, and 422 in \<open>get_email_from_token\<close> and \<open>get_password_from_token\<close>.
  A decoded token whose scope claim is another one gives 401 \<open>Invalid scope for token\<close> in
  \<open>decode_refresh_token\<close> and 401 \<open>Could not validate credentials\<close> in \<open>get_current_user\<close>.
\<close>

theorem token_verification_failures:
  "(jwt_decode tok (SECRET_KEY auth) [ALGORITHM auth] now = Inl e \<longrightarrow>
      decode_refresh_token auth now tok =
        Inl (HTTPException 401 ''Could not validate credentials'' []) \<and>
      get_current_user auth now tok d =
        Inl (HTTPException 401 ''Could not validate credentials''
               [(''WWW-Authenticate'', ''Bearer'')]) \<and>
      get_email_from_token auth now tok =
        Inl (HTTPException 422 ''Invalid token for email verification'' []) \<and>
      get_password_from_token auth now tok =
        Inl (HTTPException 422 ''Invalid token for password verification'' []))
   \<and> (jwt_decode tok (SECRET_KEY auth) [ALGORITHM auth] now = Inr payload \<and>
      dict_get payload ''scope'' = Some scope \<and> scope \<noteq> JStr ''refresh_token'' \<longrightarrow>
      decode_refresh_token auth now tok = Inl (HTTPException 401 ''Invalid scope for token'' []))
   \<and> (jwt_decode tok (SECRET_KEY auth) [ALGORITHM auth] now = Inr payload \<and>
      dict_get payload ''scope'' = Some scope \<and> scope \<noteq> JStr ''access_token'' \<longrightarrow>
      get_current_user auth now tok d =
        Inl (HTTPException 401 ''Could not validate credentials''
               [(''WWW-Authenticate'', ''Bearer'')]))
   \<and> (k \<noteq> SECRET_KEY auth \<longrightarrow>
      jwt_decode (Signed alg k cl) (SECRET_KEY auth) [ALGORITHM auth] now = Inl JWTError)
   \<and> (dict_get cl ''exp'' = Some (JNum expire) \<and> expire < now \<longrightarrow>
      jwt_decode (Signed alg k cl) (SECRET_KEY auth) [ALGORITHM auth] now = Inl JWTError)"
proof (intro conjI impI)
  assume a: "jwt_decode tok (SECRET_KEY auth) [ALGORITHM auth] now = Inl e"
  note b = a jwt_decode_error [OF a]
  from b show "decode_refresh_token auth now tok =
        Inl (HTTPException 401 ''Could not validate credentials'' [])"
    by (simp add: decode_refresh_token_def)
  from b show "get_current_user auth now tok d =
        Inl (HTTPException 401 ''Could not validate credentials''
               [(''WWW-Authenticate'', ''Bearer'')])"
    by (simp add: get_current_user_def credentials_exception_def)
  from b show "get_email_from_token auth now tok =
        Inl (HTTPException 422 ''Invalid token for email verification'' [])"
    by (simp add: get_email_from_token_def)
  from b show "get_password_from_token auth now tok =
        Inl (HTTPException 422 ''Invalid token for password verification'' [])"
    by (simp add: get_password_from_token_def)
next
  assume "jwt_decode tok (SECRET_KEY auth) [ALGORITHM auth] now = Inr payload \<and>
      dict_get payload ''scope'' = Some scope \<and> scope \<noteq> JStr ''refresh_token''"
  then show "decode_refresh_token auth now tok =
      Inl (HTTPException 401 ''Invalid scope for token'' [])"
    by (simp add: decode_refresh_token_def dict_index_def dict_get_def)
next
  assume "jwt_decode tok (SECRET_KEY auth) [ALGORITHM auth] now = Inr payload \<and>
      dict_get payload ''scope'' = Some scope \<and> scope \<noteq> JStr ''access_token''"
  then show "get_current_user auth now tok d =
        Inl (HTTPException 401 ''Could not validate credentials''
               [(''WWW-Authenticate'', ''Bearer'')])"
    by (simp add: get_current_user_def dict_index_def dict_get_def credentials_exception_def)
next
  assume "k \<noteq> SECRET_KEY auth"
  then show "jwt_decode (Signed alg k cl) (SECRET_KEY auth) [ALGORITHM auth] now = Inl JWTError"
    by simp
next
  assume "dict_get cl ''exp'' = Some (JNum expire) \<and> expire < now"
  then show "jwt_decode (Signed alg k cl) (SECRET_KEY auth) [ALGORITHM auth] now = Inl JWTError"
    by (simp add: dict_get_def)
qed

theorem token_verification_failures_witness:
  "decode_refresh_token test_auth 700000
      (create_refresh_token test_auth 100 [(''sub'', JStr ''John123@foks.com'')] None) =
      Inl (HTTPException 401 ''Could not validate credentials'' [])
   \<and> get_email_from_token test_auth 160 (Signed ''HS256'' ''another_key'' [(''sub'', JStr ''x'')]) =
      Inl (HTTPException 422 ''Invalid token for email verification'' [])
   \<and> decode_refresh_token test_auth 160
      (create_access_token test_auth 100 [(''sub'', JStr ''John123@foks.com'')] None) =
      Inl (HTTPException 401 ''Invalid scope for token'' [])
   \<and> get_current_user test_auth 160
      (create_refresh_token test_auth 100 [(''sub'', JStr ''John123@foks.com'')] None) test_db =
      Inl (HTTPException 401 ''Could not validate credentials''
             [(''WWW-Authenticate'', ''Bearer'')])"
proof -
  let ?rt = "create_refresh_token test_auth 100 [(''sub'', JStr ''John123@foks.com'')] None"
  let ?at = "create_access_token test_auth 100 [(''sub'', JStr ''John123@foks.com'')] None"
  let ?rcl = "[(''sub'', JStr ''John123@foks.com''), (''iat'', JNum 100),
               (''exp'', JNum 604900), (''scope'', JStr ''refresh_token'')]"
  let ?acl = "[(''sub'', JStr ''John123@foks.com''), (''iat'', JNum 100),
               (''exp'', JNum 1000), (''scope'', JStr ''access_token'')]"
  have 1: "decode_refresh_token test_auth 700000 ?rt =
      Inl (HTTPException 401 ''Could not validate credentials'' [])"
    using token_verification_failures [of ?rt test_auth 700000 JWTError]
    by (simp add: create_refresh_token_def jwt_encode_def jwt_validate_sub_def dict_update_def test_auth_def)
  have 2: "get_email_from_token test_auth 160
        (Signed ''HS256'' ''another_key'' [(''sub'', JStr ''x'')]) =
      Inl (HTTPException 422 ''Invalid token for email verification'' [])"
    using token_verification_failures
      [of "Signed ''HS256'' ''another_key'' [(''sub'', JStr ''x'')]" test_auth 160 JWTError]
    by (simp add: test_auth_def)
  have 3: "decode_refresh_token test_auth 160 ?at =
      Inl (HTTPException 401 ''Invalid scope for token'' [])"
    using token_verification_failures
      [of ?at test_auth 160 _ _ ?acl "JStr ''access_token''"]
    by (simp add: create_access_token_def jwt_encode_def jwt_validate_sub_def dict_update_def dict_get_def
          test_auth_def)
  have 4: "get_current_user test_auth 160 ?rt test_db =
      Inl (HTTPException 401 ''Could not validate credentials''
             [(''WWW-Authenticate'', ''Bearer'')])"
    using token_verification_failures
      [of ?rt test_auth 160 _ test_db ?rcl "JStr ''refresh_token''"]
    by (simp add: create_refresh_token_def jwt_encode_def jwt_validate_sub_def dict_update_def dict_get_def
          test_auth_def)
  from 1 2 3 4 show ?thesis by blast
qed

section \<open>Email confirmation\<close>

lemma confirmed_email_already:
  assumes "get_email_from_token auth now tok = Inr email"
      and "get_user_by_email email d = Inr (Some A)"
      and "c_confirmed A = Some True"
  shows "confirmed_email auth now tok d = (d, Inr ''Your email is already confirmed'')"
  using assms by (simp add: confirmed_email_def)

lemma confirmed_email_repeat_already:
  assumes "get_user_by_email email d = Inr (Some A)"
      and "c_confirmed A = Some True"
      and "\<forall>now\<in>set nows. get_email_from_token auth now tok = Inr email"
  shows "confirmed_email_repeat auth nows tok d =
           (d, replicate (length nows) (Inr ''Your email is already confirmed''))"
  using assms(3)
proof (induction nows)
  case Nil
  then show ?case by simp
next
  case (Cons n ns)
  then have "get_email_from_token auth n tok = Inr email" by simp
  from confirmed_email_already [OF this assms(1,2)] Cons show ?case by simp
qed

lemma confirmed_email_unconfirmed:
  assumes "get_email_from_token auth now tok = Inr email"
      and "get_user_by_email email d = Inr (Some A)"
      and "c_confirmed A \<noteq> Some True"
  shows "confirmed_email auth now tok d = (d, Inr ''Email confirmed'')"
  using assms
  by (simp add: confirmed_email_def repository_consumer_confirmed_email_def truthy_iff
        session_commit_nothing_attached)


text \<open>
  C7.  Confirming agent007, who is not confirmed, with a valid token: the handler answers
  \<open>Email confirmed\<close> and the database is as before, with \<open>confirmed = False\<close> still stored,
  so the next call answers \<open>Email confirmed\<close> again.  For John, who is confirmed, every
  call answers \<open>Your email is already confirmed\<close> and changes nothing.
\<close>

theorem confirmed_email_stores_nothing:
  "get_user_by_email (JStr ''Vladislavovich@agent007.com'') test_db = Inr (Some agent007)
   \<and> c_confirmed agent007 = Some False
   \<and> confirmed_email test_auth 160
        (create_email_token test_auth 100 [(''sub'', JStr ''Vladislavovich@agent007.com'')])
        test_db = (test_db, Inr ''Email confirmed'')
   \<and> confirmed_email_repeat test_auth [160, 200]
        (create_email_token test_auth 100 [(''sub'', JStr ''Vladislavovich@agent007.com'')])
        test_db = (test_db, [Inr ''Email confirmed'', Inr ''Email confirmed''])
   \<and> confirmed_email_repeat test_auth [160, 200]
        (create_email_token test_auth 100 [(''sub'', JStr ''John123@foks.com'')])
        test_db = (test_db, [Inr ''Your email is already confirmed'',
                             Inr ''Your email is already confirmed''])"
proof -
  let ?ta = "create_email_token test_auth 100 [(''sub'', JStr ''Vladislavovich@agent007.com'')]"
  let ?tj = "create_email_token test_auth 100 [(''sub'', JStr ''John123@foks.com'')]"
  have la: "get_user_by_email (JStr ''Vladislavovich@agent007.com'') test_db = Inr (Some agent007)"
    by (simp add: get_user_by_email_def filter_by_def fixtures)
  have lj: "get_user_by_email (JStr ''John123@foks.com'') test_db = Inr (Some john)"
    by (simp add: get_user_by_email_def filter_by_def fixtures)
  have ca: "c_confirmed agent007 = Some False" and cj: "c_confirmed john = Some True"
    by (simp_all add: fixtures)
  have ta: "get_email_from_token test_auth now ?ta = Inr (JStr ''Vladislavovich@agent007.com'')"
    if "now \<le> 86500" for now
    using that by (simp add: get_email_from_token_def create_email_token_def jwt_encode_def
          jwt_validate_sub_def dict_update_def dict_index_def test_auth_def)
  have tj: "get_email_from_token test_auth now ?tj = Inr (JStr ''John123@foks.com'')"
    if "now \<le> 86500" for now
    using that by (simp add: get_email_from_token_def create_email_token_def jwt_encode_def
          jwt_validate_sub_def dict_update_def dict_index_def test_auth_def)
  have once: "confirmed_email test_auth now ?ta test_db = (test_db, Inr ''Email confirmed'')"
    if "now \<le> 86500" for now
    using confirmed_email_unconfirmed [OF ta [OF that] la] ca by simp
  have twice: "confirmed_email_repeat test_auth [160, 200] ?ta test_db =
      (test_db, [Inr ''Email confirmed'', Inr ''Email confirmed''])"
    by (simp add: once)
  have john_twice: "confirmed_email_repeat test_auth [160, 200] ?tj test_db =
      (test_db, [Inr ''Your email is already confirmed'',
                 Inr ''Your email is already confirmed''])"
    using confirmed_email_repeat_already [OF lj cj, of "[160, 200]" test_auth ?tj] tj
    by simp
  from la ca once [of 160] twice john_twice show ?thesis by simp
qed


section \<open>Refreshing tokens\<close>

lemma refresh_token_mismatch:
  assumes "decode_refresh_token auth now tok = Inr email"
      and "get_user_by_email email d = Inr (Some A)"
      and "c_refresh_token A \<noteq> Some tok"
  shows "refresh_token auth now tok d = (d, Inl (HTTPException 401 ''Invalid refresh token'' []))"
  using assms by (simp add: refresh_token_def update_token_keeps_db)

lemma refresh_token_match:
  assumes "decode_refresh_token auth now tok = Inr email"
      and "get_user_by_email email d = Inr (Some A)"
      and "c_refresh_token A = Some tok"
  shows "refresh_token auth now tok d =
           (d, Inr \<lparr>ts_access_token = create_access_token auth now [(''sub'', email)] None,
                    ts_refresh_token = create_refresh_token auth now [(''sub'', email)] None,
                    ts_token_type = ''bearer''\<rparr>)"
  using assms by (simp add: refresh_token_def update_token_keeps_db Let_def)

lemma john_refresh_decodes:
  "now \<le> 604900 \<Longrightarrow> decode_refresh_token test_auth now john_refresh = Inr (JStr ''John123@foks.com'')"
  by (simp add: john_refresh_def decode_refresh_token_def create_refresh_token_def
        jwt_encode_def jwt_validate_sub_def dict_update_def dict_index_def test_auth_def)


text \<open>
  C3.  A valid refresh token for John presented while his row holds another token: the
  handler raises 401 \<open>Invalid refresh token\<close> and the row still holds the other token, not
  \<open>None\<close>.  The refresh token that \<open>login\<close> hands out is not stored either, so it is
  refused at once.  Where the row does hold the presented token, the refresh succeeds,
  the row keeps that token, and the same token succeeds again afterwards.
\<close>

theorem refresh_token_stores_nothing:
  "get_user_by_email (JStr ''John123@foks.com'') old_token_db =
      Inr (Some (john\<lparr>c_refresh_token := Some (Malformed ''old_token'')\<rparr>))
   \<and> refresh_token test_auth 200 john_refresh old_token_db =
      (old_token_db, Inl (HTTPException 401 ''Invalid refresh token'' []))
   \<and> login test_auth 100 ''John123@foks.com'' ''qwe123123'' test_db =
      (test_db,
       Inr \<lparr>ts_access_token = create_access_token test_auth 100
                [(''sub'', JStr ''John123@foks.com''), (''test'', JStr ''Tester Testorovich'')]
                None,
            ts_refresh_token = john_refresh, ts_token_type = ''bearer''\<rparr>)
   \<and> refresh_token test_auth 100 john_refresh test_db =
      (test_db, Inl (HTTPException 401 ''Invalid refresh token'' []))
   \<and> refresh_token test_auth 200 john_refresh stored_token_db =
      (stored_token_db,
       Inr \<lparr>ts_access_token = create_access_token test_auth 200
                [(''sub'', JStr ''John123@foks.com'')] None,
            ts_refresh_token = create_refresh_token test_auth 200
                [(''sub'', JStr ''John123@foks.com'')] None,
            ts_token_type = ''bearer''\<rparr>)
   \<and> refresh_token test_auth 300 john_refresh
        (fst (refresh_token test_auth 200 john_refresh stored_token_db)) =
      (stored_token_db,
       Inr \<lparr>ts_access_token = create_access_token test_auth 300
                [(''sub'', JStr ''John123@foks.com'')] None,
            ts_refresh_token = create_refresh_token test_auth 300
                [(''sub'', JStr ''John123@foks.com'')] None,
            ts_token_type = ''bearer''\<rparr>)"
proof -
  have lo: "get_user_by_email (JStr ''John123@foks.com'') old_token_db =
      Inr (Some (john\<lparr>c_refresh_token := Some (Malformed ''old_token'')\<rparr>))"
    by (simp add: get_user_by_email_def filter_by_def old_token_db_def john_def agent007_def)
  have ls: "get_user_by_email (JStr ''John123@foks.com'') stored_token_db =
      Inr (Some (john\<lparr>c_refresh_token := Some john_refresh\<rparr>))"
    by (simp add: get_user_by_email_def filter_by_def stored_token_db_def john_def agent007_def)
  have lt: "get_user_by_email (JStr ''John123@foks.com'') test_db = Inr (Some john)"
    by (simp add: get_user_by_email_def filter_by_def fixtures)
  have ne: "john_refresh \<noteq> Malformed ''old_token''"
    by (simp add: john_refresh_def create_refresh_token_def jwt_encode_def)
  have 1: "refresh_token test_auth 200 john_refresh old_token_db =
      (old_token_db, Inl (HTTPException 401 ''Invalid refresh token'' []))"
    using refresh_token_mismatch [OF john_refresh_decodes lo] ne by simp
  have 2: "login test_auth 100 ''John123@foks.com'' ''qwe123123'' test_db =
      (test_db,
       Inr \<lparr>ts_access_token = create_access_token test_auth 100
                [(''sub'', JStr ''John123@foks.com''), (''test'', JStr ''Tester Testorovich'')]
                None,
            ts_refresh_token = john_refresh, ts_token_type = ''bearer''\<rparr>)"
    by (simp add: login_def lt verify_password_def update_token_keeps_db Let_def
          john_refresh_def test_auth_def john_def)
  have 3: "refresh_token test_auth 100 john_refresh test_db =
      (test_db, Inl (HTTPException 401 ''Invalid refresh token'' []))"
    using refresh_token_mismatch [OF john_refresh_decodes lt] by (simp add: john_def)
  have 4: "refresh_token test_auth now john_refresh stored_token_db =
      (stored_token_db,
       Inr \<lparr>ts_access_token = create_access_token test_auth now
                [(''sub'', JStr ''John123@foks.com'')] None,
            ts_refresh_token = create_refresh_token test_auth now
                [(''sub'', JStr ''John123@foks.com'')] None,
            ts_token_type = ''bearer''\<rparr>)" if "now \<le> 604900" for now
    using refresh_token_match [OF john_refresh_decodes [OF that] ls] by simp
  from lo 1 2 3 4 [of 200] 4 [of 300] show ?thesis by simp
qed

section \<open>Contacts are scoped by their owner\<close>

text \<open>
  With the primary key of the contacts table unique, a contact that account \<open>A\<close> owns is
  not selected by a query that account \<open>B\<close> makes: the three repository functions return
  \<open>None\<close> and leave the database as it was, and the owner still reads the contact.
\<close>

lemma foreign_contact_not_selected:
  assumes pk: "distinct (map u_id (users d))"
      and own: "u \<in> set (users d)" "u_consumer_id u = Some (c_id A)"
      and other: "c_id B \<noteq> c_id A"
  shows "filter_by [] [\<lambda>r. u_id r = u_id u, \<lambda>r. u_consumer_id r = Some (c_id B)] (users d) = Inr []"
proof -
  have same: "r = u" if "r \<in> set (users d)" "u_id r = u_id u" for r
    using pk own(1) that by (meson distinct_map inj_onD)
  have "\<not> (u_id r = u_id u \<and> u_consumer_id r = Some (c_id B))" if "r \<in> set (users d)" for r
  proof
    assume a: "u_id r = u_id u \<and> u_consumer_id r = Some (c_id B)"
    with same [OF that] have "r = u" by simp
    with a own(2) other show False by simp
  qed
  then have "\<forall>r\<in>set (users d). \<not> (u_id r = u_id u \<and> u_consumer_id r = Some (c_id B))"
    by blast
  then show ?thesis by (simp add: filter_by_def filter_empty_conv)
qed

lemma contact_isolation:
  assumes pk: "distinct (map u_id (users d))"
      and own: "u \<in> set (users d)" "u_consumer_id u = Some (c_id A)"
      and other: "c_id B \<noteq> c_id A"
  shows "repository_users_get_user (u_id u) d B = Inr None"
    and "repository_users_update_user (u_id u) body now d B = (d, Inr None)"
    and "repository_users_delete_user (u_id u) d B = (d, Inr None)"
    and "1 \<le> u_id u \<Longrightarrow> get_user (u_id u) d B = Inl (HTTPException 404 ''NOT FOUND'' [])"
    and "1 \<le> u_id u \<Longrightarrow>
         update_user body (u_id u) now d B = (d, Inl (HTTPException 404 ''NOT FOUND'' []))"
    and "1 \<le> u_id u \<Longrightarrow> delete_user (u_id u) d B = (d, Inr None)"
  using foreign_contact_not_selected [OF assms]
  by (simp_all add: repository_users_get_user_def repository_users_update_user_def
        repository_users_delete_user_def get_user_def update_user_def delete_user_def)

lemma owner_sees_contact:
  assumes pk: "distinct (map u_id (users d))"
      and own: "u \<in> set (users d)" "u_consumer_id u = Some (c_id A)"
  shows "repository_users_get_user (u_id u) d A = Inr (Some u)"
proof -
  have "filter (\<lambda>r. u_id r = u_id u \<and> u_consumer_id r = Some (c_id A)) (users d) =
        filter (\<lambda>r. u_id r = u_id u) (users d)"
    by (rule filter_cong) (use pk own in \<open>auto dest: inj_onD simp: distinct_map\<close>)
  with filter_unique_key [OF pk own(1)] show ?thesis
    by (simp add: repository_users_get_user_def filter_by_def)
qed


text \<open>
  C4.  The handlers on John's contact 1 with agent007's identity: the repository returns
  \<open>None\<close> for all three operations and changes nothing; \<open>get_user\<close> and \<open>update_user\<close> raise
  404 \<open>NOT FOUND\<close>, whereas \<open>delete_user\<close> returns the \<open>None\<close> as its response and raises
  nothing.
\<close>

theorem delete_route_foreign_contact_no_404:
  "repository_users_get_user 1 test_db agent007 = Inr None
   \<and> repository_users_update_user 1 jane_doe 100 test_db agent007 = (test_db, Inr None)
   \<and> repository_users_delete_user 1 test_db agent007 = (test_db, Inr None)
   \<and> get_user 1 test_db agent007 = Inl (HTTPException 404 ''NOT FOUND'' [])
   \<and> update_user jane_doe 1 100 test_db agent007 =
       (test_db, Inl (HTTPException 404 ''NOT FOUND'' []))
   \<and> delete_user 1 test_db agent007 = (test_db, Inr None)
   \<and> get_user 1 test_db john = Inr john_doe"
  by (simp add: repository_users_get_user_def repository_users_update_user_def
        repository_users_delete_user_def get_user_def update_user_def delete_user_def
        filter_by_def fixtures)


section \<open>Requesting the confirmation mail\<close>

lemma request_email_no_account:
  "get_user_by_email (JStr body_email) d = Inr None \<Longrightarrow>
   request_email body_email base_url d = Inl AttributeError"
  by (simp add: request_email_def)

lemma request_email_account:
  assumes "get_user_by_email (JStr body_email) d = Inr (Some u)"
  shows "request_email body_email base_url d =
           (if c_confirmed u = Some True then Inr (''Your email is already confirmed'', [])
            else Inr (''Check your email for confirmation.'',
                      [send_email (c_email u) (c_username u) base_url]))"
  using assms by (simp add: request_email_def truthy_iff)


text \<open>
  C8.  For an email that matches no account, \<open>request_email\<close> raises \<open>AttributeError\<close> at
  \<open>user.confirmed\<close>; for a confirmed account it answers \<open>Your email is already confirmed\<close>
  and queues nothing, for an unconfirmed one it queues the confirmation mail.
\<close>

theorem request_email_unknown_account_raises:
  "get_user_by_email (JStr ''nobody@example.com'') test_db = Inr None
   \<and> request_email ''nobody@example.com'' ''http://testserver/'' test_db = Inl AttributeError
   \<and> request_email ''John123@foks.com'' ''http://testserver/'' test_db =
       Inr (''Your email is already confirmed'', [])
   \<and> request_email ''Vladislavovich@agent007.com'' ''http://testserver/'' test_db =
       Inr (''Check your email for confirmation.'',
            [send_email ''Vladislavovich@agent007.com'' ''agent007'' ''http://testserver/''])"
  by (simp add: request_email_def get_user_by_email_def filter_by_def fixtures)


section \<open>Upcoming birthdays\<close>

lemma get_users_birth_always_raises:
  "repository_users_get_users_birth limit current_date d consumer = Inl TypeError"
  by (simp add: repository_users_get_users_birth_def filter_by_def)


text \<open>
  C9.  \<open>get_users_birth\<close> for John with a window of 7 days, on a day on which his contact
  has its \<open>birth_date\<close>: the repository function raises \<open>TypeError\<close>, and so does the
  handler.
\<close>

theorem get_users_birth_raises_type_error:
  "u_consumer_id john_doe = Some (c_id john) \<and> u_birth_date john_doe = 20000
   \<and> repository_users_get_users_birth 7 20000 test_db john = Inl TypeError
   \<and> get_users_birth 7 20000 test_db john = Inl TypeError"
  by (simp add: repository_users_get_users_birth_def get_users_birth_def filter_by_def fixtures)

end
